theory Spec2Isabelle
  imports Complex_Main
begin

section \<open>Python values used by the renderer\<close>

text \<open>
  Python floats are modelled as reals. Where a quotient and a product are cut to an integer
  (the typewriter's character count, the index into the loudness envelope), each operation
  is rounded to a double by \<open>fl\<close> below; elsewhere the arithmetic is exact, and rounding
  error, infinities and NaN are outside this development. Python strings are lists of characters; the characters are
  code points below 256.
\<close>

type_synonym size = "int \<times> int"

datatype error =
    FileNotFoundError
  | ParameterError
  | ZeroDivisionError
  | EstimatorError
  | TypeError
  | ValueError
  | OSError

text \<open>\<open>int(x)\<close> on a float: truncation towards zero.\<close>

definition py_int :: "real \<Rightarrow> int" where
  "py_int x = (if 0 \<le> x then \<lfloor>x\<rfloor> else \<lceil>x\<rceil>)"

text \<open>Rounding to the nearest integer, a tie going to the even one.\<close>

definition round_half_even :: "real \<Rightarrow> int" where
  "round_half_even s =
     (let f = \<lfloor>s\<rfloor>;
          d = s - real_of_int f
      in if d < 1 / 2 then f else if 1 / 2 < d then f + 1 else if even f then f else f + 1)"

text \<open>
  Rounding to a double (IEEE 754 binary64, round to nearest, ties to even). The exponent of
  \<open>x\<close> is searched upwards from \<open>-1022\<close>, the exponent of the smallest normal number, which
  subnormal numbers share, to at most \<open>1023\<close>; the result is the multiple of
  \<open>2 ^ (exponent - 52)\<close> nearest to \<open>x\<close>. Overflow to infinity is not modelled.
\<close>

fun exponent_search :: "nat \<Rightarrow> int \<Rightarrow> real \<Rightarrow> int" where
  "exponent_search 0 e x = e"
| "exponent_search (Suc n) e x =
     (if 2 powi (e + 1) \<le> x then exponent_search n (e + 1) x else e)"

definition double_exponent :: "real \<Rightarrow> int" where
  "double_exponent x = exponent_search 2045 (- 1022) \<bar>x\<bar>"

definition fl :: "real \<Rightarrow> real" where
  "fl x = (let u = 2 powi (double_exponent x - 52)
           in real_of_int (round_half_even (x / u)) * u)"

text \<open>\<open>str.isspace\<close> for one character (code points below 256).\<close>

definition is_space :: "char \<Rightarrow> bool" where
  "is_space c = ((of_char c :: nat) \<in> {9, 10, 11, 12, 13, 28, 29, 30, 31, 32, 133, 160})"

text \<open>\<open>s.strip()\<close>, \<open>s.lstrip('#')\<close>, \<open>s.replace("\n", " ")\<close>.\<close>

definition strip :: "string \<Rightarrow> string" where
  "strip s = rev (dropWhile is_space (rev (dropWhile is_space s)))"

definition lstrip_hash :: "string \<Rightarrow> string" where
  "lstrip_hash s = dropWhile (\<lambda>c. c = CHR ''#'') s"

definition replace_newline :: "string \<Rightarrow> string" where
  "replace_newline s = map (\<lambda>c. if c = CHR 0x0A then CHR '' '' else c) s"

text \<open>
  \<open>_safe_text(text, max_len)\<close>. The argument may be \<open>None\<close> (a missing story field), which
  \<open>not text\<close> treats like the empty string. Every call site passes \<open>max_len \<ge> 140\<close>, so
  \<open>max_len - 3\<close> is a natural number.
\<close>

definition safe_text :: "string option \<Rightarrow> nat \<Rightarrow> string" where
  "safe_text text max_len =
     (case text of
        None \<Rightarrow> []
      | Some s \<Rightarrow>
          if s = [] then []
          else let s' = strip (replace_newline s)
               in if length s' > max_len then take (max_len - 3) s' @ ''...'' else s')"

section \<open>Timeline segmentation\<close>

text \<open>\<open>_segment_timeline(duration)\<close>: a dict literal, kept in insertion order.\<close>

definition segment_timeline :: "real \<Rightarrow> (string \<times> (real \<times> real)) list" where
  "segment_timeline duration =
     (let intro_end = duration * 0.10;
          hook_end = intro_end + duration * 0.10;
          dev_end = hook_end + duration * 0.50;
          climax_end = dev_end + duration * 0.20;
          closing_end = duration
      in [(''intro'', (0.0, intro_end)),
          (''hook_moment'', (intro_end, hook_end)),
          (''development'', (hook_end, dev_end)),
          (''climax'', (dev_end, climax_end)),
          (''closing'', (climax_end, closing_end))])"

text \<open>\<open>timeline[name]\<close> for a key the dict literal has.\<close>

definition timeline_get :: "(string \<times> (real \<times> real)) list \<Rightarrow> string \<Rightarrow> real \<times> real" where
  "timeline_get tml name = (case map_of tml name of Some p \<Rightarrow> p | None \<Rightarrow> (0, 0))"

section \<open>Beat pulse\<close>

text \<open>
  The loop of \<open>_pulse_overlay.make_frame\<close> over the beat times, with the running value of
  \<open>pulse\<close> as accumulator.
\<close>

fun pulse_loop :: "real \<Rightarrow> real list \<Rightarrow> real \<Rightarrow> real" where
  "pulse_loop t [] pulse = pulse"
| "pulse_loop t (bt # bts) pulse =
     pulse_loop t bts
       (if \<bar>t - bt\<bar> < 0.10 then max pulse (1.0 - (\<bar>t - bt\<bar> / 0.10)) else pulse)"

definition pulse_intensity :: "real list \<Rightarrow> real \<Rightarrow> real" where
  "pulse_intensity btimes t = pulse_loop t btimes 0.0"

definition pulse_alpha :: "real list \<Rightarrow> real \<Rightarrow> real" where
  "pulse_alpha btimes t = (pulse_intensity btimes t)\<^sup>2 * 0.35"

text \<open>The grey level written to every channel of every pixel: \<open>int(alpha * 255)\<close>.\<close>

definition pulse_val :: "real list \<Rightarrow> real \<Rightarrow> int" where
  "pulse_val btimes t = py_int (pulse_alpha btimes t * 255)"

text \<open>Distance from \<open>t\<close> to the nearest beat of a non-empty list.\<close>

definition nearest_beat_distance :: "real list \<Rightarrow> real \<Rightarrow> real" where
  "nearest_beat_distance btimes t = Min ((\<lambda>bt. \<bar>t - bt\<bar>) ` set btimes)"

section \<open>Text images and clips\<close>

text \<open>
  \<open>_render_text_image\<close> sanitises its text with \<open>_safe_text(text, 220)\<close> and hands it to Pillow
  for layout and drawing. The image is kept as what determines it: the sanitised text, the
  box, the font size and the fill colour. Font lookup, wrapping by glyph metrics and the
  drawing itself are Pillow's and are not modelled.
\<close>

record text_image =
  ti_text :: string
  ti_box :: size
  ti_fontsize :: int
  ti_color :: "int \<times> int \<times> int"

definition render_text_image ::
  "string option \<Rightarrow> size \<Rightarrow> int \<Rightarrow> int \<times> int \<times> int \<Rightarrow> text_image" where
  "render_text_image text box_size fontsize color =
     \<lparr>ti_text = safe_text text 220, ti_box = box_size, ti_fontsize = fontsize, ti_color = color\<rparr>"

text \<open>
  A MoviePy clip: what makes its frames, and the attributes the renderer sets. A new clip
  starts at 0, is opaque and sits at the top left corner; \<open>ColorClip\<close> and \<open>ImageClip\<close> have
  no duration until \<open>with_duration\<close> gives one.
\<close>

datatype frame_source =
    DynamicBg size real
  | PulseOverlay size "real list" real
  | ColorClip size "nat \<times> nat \<times> nat"
  | ImageClip text_image
  | TypewriterClip string size real int
  | WaveformOverlay size "real list" real

datatype position = TopLeft | CenterAt int

record clip =
  clip_source :: frame_source
  clip_start :: real
  clip_duration :: "real option"
  clip_opacity :: real
  clip_position :: position

definition generate_dynamic_bg :: "size \<Rightarrow> real \<Rightarrow> clip" where
  "generate_dynamic_bg sz duration =
     \<lparr>clip_source = DynamicBg sz duration, clip_start = 0, clip_duration = Some duration,
      clip_opacity = 1, clip_position = TopLeft\<rparr>"

definition pulse_overlay :: "size \<Rightarrow> real list \<Rightarrow> real \<Rightarrow> clip" where
  "pulse_overlay sz btimes duration =
     \<lparr>clip_source = PulseOverlay sz btimes duration, clip_start = 0,
      clip_duration = Some duration, clip_opacity = 1, clip_position = TopLeft\<rparr>"

text \<open>\<open>_image_text_clip(text, size, start, end, fontsize)\<close>.\<close>

definition image_text_clip :: "string option \<Rightarrow> size \<Rightarrow> real \<Rightarrow> real \<Rightarrow> int \<Rightarrow> clip" where
  "image_text_clip text sz start end_t fontsize =
     (let img = render_text_image text (py_int (real_of_int (fst sz) * 0.9), 300) fontsize
                  (255, 255, 255)
      in \<lparr>clip_source = ImageClip img, clip_start = start,
          clip_duration = Some (max 0.01 (end_t - start)), clip_opacity = 1,
          clip_position = CenterAt (py_int (real_of_int (snd sz) * 0.12))\<rparr>)"

section \<open>Typewriter title\<close>

text \<open>
  \<open>_typewriter_clip(text, size, start, dur, fontsize)\<close>: the text is sanitised once, when the
  clip is built; \<open>make_frame_local\<close> then works on the sanitised text.
\<close>

definition typewriter_clip :: "string option \<Rightarrow> size \<Rightarrow> real \<Rightarrow> real \<Rightarrow> int \<Rightarrow> clip" where
  "typewriter_clip text sz start dur fontsize =
     \<lparr>clip_source = TypewriterClip (safe_text text 160) sz dur fontsize, clip_start = start,
      clip_duration = Some dur, clip_opacity = 1, clip_position = TopLeft\<rparr>"

text \<open>
  The number of characters revealed at local time \<open>t\<close>, and the prefix \<open>text[:n]\<close>. The
  count is the integer part of a double, so the constant \<open>0.01\<close>, the quotient and the product
  are rounded as Python rounds them.
\<close>

definition typewriter_n :: "string \<Rightarrow> real \<Rightarrow> real \<Rightarrow> int" where
  "typewriter_n text t dur =
     (let progress = max 0.0 (min 1.0 (fl (t / max (fl 0.01) dur)))
      in max 1 (py_int (fl (real (length text) * progress))))"

definition typewriter_prefix :: "string \<Rightarrow> real \<Rightarrow> real \<Rightarrow> string" where
  "typewriter_prefix text t dur = take (nat (typewriter_n text t dur)) text"

text \<open>The text image \<open>make_frame_local\<close> pastes on the canvas at local time \<open>t\<close>.\<close>

definition typewriter_image :: "string option \<Rightarrow> size \<Rightarrow> real \<Rightarrow> int \<Rightarrow> real \<Rightarrow> text_image" where
  "typewriter_image text sz dur fontsize t =
     render_text_image (Some (typewriter_prefix (safe_text text 160) t dur))
       (py_int (real_of_int (fst sz) * 0.9), 280) fontsize (255, 240, 200)"

section \<open>Karaoke captions\<close>

text \<open>\<open>s.split(sep)\<close> for a separator of one character.\<close>

fun split_on :: "char \<Rightarrow> string \<Rightarrow> string list" where
  "split_on sep [] = [[]]"
| "split_on sep (c # cs) =
     (if c = sep then [] # split_on sep cs
      else (case split_on sep cs of
              [] \<Rightarrow> [[c]]
            | p # ps \<Rightarrow> (c # p) # ps))"

text \<open>The sentence-like parts: the first loop of \<open>_karaoke_clips\<close>, then the fallback.\<close>

definition karaoke_parts :: "string \<Rightarrow> string list" where
  "karaoke_parts text =
     (let parts = filter (\<lambda>seg. length seg > 3) (map strip (split_on CHR ''.'' text))
      in if parts = [] then [text] else parts)"

text \<open>The second loop, with the running \<open>start\<close> as state.\<close>

fun karaoke_loop :: "size \<Rightarrow> real \<Rightarrow> real \<Rightarrow> real \<Rightarrow> string list \<Rightarrow> clip list" where
  "karaoke_loop sz duration per start [] = []"
| "karaoke_loop sz duration per start (seg # segs) =
     (let end_t = min duration (start + per);
          img = render_text_image (Some seg) (py_int (real_of_int (fst sz) * 0.9), 200) 56
                  (255, 235, 140);
          c = \<lparr>clip_source = ImageClip img, clip_start = start,
               clip_duration = Some (end_t - start), clip_opacity = 1,
               clip_position = CenterAt (py_int (real_of_int (snd sz) * 0.86))\<rparr>
      in c # karaoke_loop sz duration per end_t segs)"

definition karaoke_clips :: "string option \<Rightarrow> size \<Rightarrow> real \<Rightarrow> clip list" where
  "karaoke_clips transcription sz duration =
     (let text = safe_text transcription 400
      in if text = [] then []
         else let parts = karaoke_parts text;
                  per = duration / real (length parts)
              in karaoke_loop sz duration per 0.0 parts)"

section \<open>Loudness envelope\<close>

text \<open>
  \<open>librosa.util.frame(y, frame_length=n, hop_length=n)\<close>: the consecutive blocks of \<open>n\<close>
  samples; samples after the last full block are dropped.
\<close>

function frame_chunks :: "nat \<Rightarrow> real list \<Rightarrow> real list list" where
  "frame_chunks n y =
     (if n = 0 \<or> length y < n then [] else take n y # frame_chunks n (drop n y))"
  by pat_completeness auto
termination
  by (relation "measure (\<lambda>(n, y). length y)") auto

declare frame_chunks.simps [simp del]

text \<open>\<open>a.mean()\<close> of a non-empty array.\<close>

definition mean :: "real list \<Rightarrow> real" where
  "mean xs = sum_list xs / real (length xs)"

text \<open>
  The envelope that \<open>_waveform_overlay\<close> computes before it builds the clip, from the samples
  \<open>y\<close> and the rate \<open>sr\<close> that \<open>librosa.load\<close> returned (always 22050 here).
  \<open>librosa.util.frame\<close> raises \<open>ParameterError\<close> when the signal is shorter than one window
  or the window is empty.
\<close>

definition loudness_envelope :: "real list \<Rightarrow> int \<Rightarrow> error + real list" where
  "loudness_envelope y sr =
     (let win = py_int (real_of_int sr * 0.02)
      in if win < 1 \<or> int (length y) < win then Inl ParameterError
         else let env = map (\<lambda>fr. \<bar>mean fr\<bar>) (frame_chunks (nat win) y);
                  env_max = Max (set env)
              in Inr (map (\<lambda>e. e / (env_max + 1 / 10 ^ 8)) env))"

text \<open>The envelope index and the filled width of the bar at time \<open>t\<close>.\<close>

definition waveform_idx :: "real list \<Rightarrow> real \<Rightarrow> real \<Rightarrow> int" where
  "waveform_idx env duration t =
     (let idx = py_int (fl (fl (t / max (fl 0.01) duration) * real (length env)))
      in max 0 (min (int (length env) - 1) idx))"

definition waveform_overlay :: "size \<Rightarrow> real list \<Rightarrow> real \<Rightarrow> error + clip" where
  "waveform_overlay sz y duration =
     (case loudness_envelope y 22050 of
        Inl e \<Rightarrow> Inl e
      | Inr env \<Rightarrow>
          Inr \<lparr>clip_source = WaveformOverlay sz env duration, clip_start = 0,
               clip_duration = Some duration, clip_opacity = 1, clip_position = TopLeft\<rparr>)"

section \<open>Audio features\<close>

text \<open>
  \<open>round(x, ndigits)\<close> on exact reals: to the nearest multiple of \<open>10 ^ -ndigits\<close>, a tie going
  to the even one.
\<close>

definition py_round :: "real \<Rightarrow> nat \<Rightarrow> real" where
  "py_round x ndigits = real_of_int (round_half_even (x * 10 ^ ndigits)) / 10 ^ ndigits"

text \<open>
  A number handed back by librosa: a Python float, or a NumPy array of one dimension (what
  \<open>beat_track\<close> gives for the tempo in current releases).
\<close>

datatype np_value = Scalar real | Array "real list"

text \<open>
  \<open>float(v)\<close>: NumPy converts only arrays of dimension 0 and raises \<open>TypeError\<close> for any other
  (older releases converted an array of one element, with a deprecation warning).
\<close>

definition py_float :: "np_value \<Rightarrow> error + real" where
  "py_float v = (case v of Scalar r \<Rightarrow> Inr r | Array xs \<Rightarrow> Inl TypeError)"

text \<open>
  What the librosa calls of \<open>_analyze_audio_features\<close> give on the audio at hand; each may
  raise. \<open>piptrack\<close> gives pitches with their magnitudes, \<open>beat_track\<close> the tempo.
\<close>

record estimators =
  rms_result :: "error + real list"
  piptrack_result :: "error + (real \<times> real) list"
  beat_track_result :: "error + np_value"
  spectral_centroid_result :: "error + real list"

record audio_features =
  duration_seconds :: real
  sample_rate :: int
  average_rms :: real
  average_pitch_hz :: real
  tempo_bpm :: real
  spectral_centroid :: real

text \<open>
  The three guarded blocks of \<open>_analyze_audio_features\<close>. The pitch and the spectral centroid
  are converted with \<open>float\<close> inside their \<open>try\<close>; the tempo leaves its \<open>try\<close> as librosa gave
  it.
\<close>

definition estimate_pitch :: "error + (real \<times> real) list \<Rightarrow> real" where
  "estimate_pitch r =
     (case r of
        Inl e \<Rightarrow> 0.0
      | Inr pm \<Rightarrow>
          (let pitch_values = map fst (filter (\<lambda>(p, m). 0.1 < m) pm)
           in if length pitch_values > 0 then mean pitch_values else 0.0))"

definition estimate_tempo :: "error + np_value \<Rightarrow> np_value" where
  "estimate_tempo r = (case r of Inl e \<Rightarrow> Scalar 0.0 | Inr tempo \<Rightarrow> tempo)"

definition estimate_spectral :: "error + real list \<Rightarrow> real" where
  "estimate_spectral r = (case r of Inl e \<Rightarrow> 0.0 | Inr cs \<Rightarrow> mean cs)"

text \<open>
  \<open>_analyze_audio_features(audio, sr)\<close>, for an audio of \<open>n\<close> samples. The division by \<open>sr\<close>,
  the RMS call and, in the returned dict, \<open>float(tempo)\<close> are outside every \<open>try\<close>.
\<close>

definition analyze_audio_features :: "nat \<Rightarrow> int \<Rightarrow> estimators \<Rightarrow> error + audio_features" where
  "analyze_audio_features n sr est =
     (if sr = 0 then Inl ZeroDivisionError
      else let duration = real n / real_of_int sr
           in case rms_result est of
                Inl e \<Rightarrow> Inl e
              | Inr rms \<Rightarrow>
                  (let avg_rms = mean rms;
                       avg_pitch = estimate_pitch (piptrack_result est);
                       tempo = estimate_tempo (beat_track_result est);
                       avg_spectral = estimate_spectral (spectral_centroid_result est)
                   in case py_float tempo of
                        Inl e \<Rightarrow> Inl e
                      | Inr tempo_value \<Rightarrow>
                          Inr \<lparr>duration_seconds = py_round duration 2,
                               sample_rate = sr,
                               average_rms = py_round avg_rms 4,
                               average_pitch_hz = py_round avg_pitch 1,
                               tempo_bpm = py_round tempo_value 1,
                               spectral_centroid = py_round avg_spectral 1\<rparr>))"

section \<open>The render pipeline\<close>

text \<open>
  The concept dict, with the keys the renderer reads. A title or hashtag list that is absent
  or null reads as \<open>None\<close>. The story is a dict (the empty one when the key is absent), or
  \<open>None\<close> when the JSON has \<open>null\<close> there; a story field may be present and hold \<open>None\<close> or
  the empty string.
\<close>

record concept =
  concept_title :: "string option"
  story_structure :: "(string \<rightharpoonup> string option) option"
  hashtags :: "string list option"

text \<open>
  What the audio file gives the renderer: whether the path exists, the duration MoviePy
  reports, the outcome of \<open>_beats_from_audio\<close> (librosa's beat tracker, which may raise) and
  the samples \<open>librosa.load\<close> returns.
\<close>

record audio_file =
  audio_exists :: bool
  audio_duration :: real
  audio_beats :: "error + real list"
  audio_samples :: "real list"

text \<open>
  What the renderer hands to \<open>CompositeVideoClip\<close> and the encoder: the layers, the canvas
  size, the duration and the frame rate.
\<close>

record video =
  v_layers :: "clip list"
  v_size :: size
  v_duration :: real
  v_fps :: int

text \<open>\<open>if not duration or duration <= 0: duration = 30.0\<close>.\<close>

definition effective_duration :: "real \<Rightarrow> real" where
  "effective_duration d = (if d = 0 \<or> d \<le> 0 then 30.0 else d)"

text \<open>The conditional expression that chooses the pulse layer.\<close>

definition pulse_layer :: "size \<Rightarrow> real list \<Rightarrow> real \<Rightarrow> clip" where
  "pulse_layer sz beats duration =
     (if beats \<noteq> [] then pulse_overlay sz beats duration
      else \<lparr>clip_source = ColorClip sz (0, 0, 0), clip_start = 0, clip_duration = None,
            clip_opacity = 0, clip_position = TopLeft\<rparr>)"

text \<open>The closure \<open>add_text_at\<close>, with the list \<open>layers\<close> it appends to passed and returned.\<close>

definition add_text_at ::
  "size \<Rightarrow> clip list \<Rightarrow> string option \<Rightarrow> real \<Rightarrow> real \<Rightarrow> int \<Rightarrow> clip list" where
  "add_text_at sz layers text start end_t fontsize =
     (if text = None \<or> text = Some [] then layers
      else layers @ [image_text_clip text sz start end_t fontsize])"

text \<open>The title block.\<close>

definition add_title :: "size \<Rightarrow> real \<Rightarrow> concept \<Rightarrow> clip list \<Rightarrow> clip list" where
  "add_title sz duration c layers =
     (let intro_end = min 2.8 duration;
          ttl = (case concept_title c of None \<Rightarrow> [] | Some s \<Rightarrow> s)
      in if ttl \<noteq> [] then layers @ [typewriter_clip (Some ttl) sz 0.0 intro_end 80]
         else add_text_at sz layers (Some ''ReelSense AI'') 0 intro_end 80)"

text \<open>One line of the story block: the field \<open>key\<close> shown over the segment of the same name.\<close>

definition add_story ::
  "size \<Rightarrow> (string \<times> (real \<times> real)) list \<Rightarrow> (string \<rightharpoonup> string option) \<Rightarrow> string
     \<Rightarrow> clip list \<Rightarrow> clip list" where
  "add_story sz timeline story key layers =
     (case story key of
        None \<Rightarrow> layers
      | Some text \<Rightarrow>
          add_text_at sz layers text (fst (timeline_get timeline key))
            (snd (timeline_get timeline key)) 68)"

text \<open>The hashtag block.\<close>

definition hashtag_token :: "string \<Rightarrow> string" where
  "hashtag_token h = CHR ''#'' # lstrip_hash h"

fun join :: "string \<Rightarrow> string list \<Rightarrow> string" where
  "join sep [] = []"
| "join sep [x] = x"
| "join sep (x # y # ys) = x @ sep @ join sep (y # ys)"

definition hashtag_text :: "string list \<Rightarrow> string" where
  "hashtag_text tags = join ''  '' (map hashtag_token (take 5 tags))"

definition add_hashtags :: "size \<Rightarrow> real \<Rightarrow> concept \<Rightarrow> clip list \<Rightarrow> clip list" where
  "add_hashtags sz duration c layers =
     (let tags = (case hashtags c of None \<Rightarrow> [] | Some hs \<Rightarrow> hs)
      in if tags \<noteq> [] then
           (let ht_text = hashtag_text tags;
                ht_img = render_text_image (Some ht_text)
                           (py_int (real_of_int (fst sz) * 0.9), 160) 44 (255, 255, 255)
            in layers @ [\<lparr>clip_source = ImageClip ht_img, clip_start = 0,
                           clip_duration = Some duration, clip_opacity = 1,
                           clip_position = CenterAt (py_int (real_of_int (snd sz) * 0.92))\<rparr>])
         else layers)"

text \<open>The optional block \<open>if wow\<close>; the waveform overlay may raise, nothing catches it.\<close>

definition add_wow ::
  "size \<Rightarrow> real \<Rightarrow> audio_file \<Rightarrow> bool \<Rightarrow> string option \<Rightarrow> clip list \<Rightarrow> error + clip list" where
  "add_wow sz duration a wow transcription layers =
     (if wow then
        (case waveform_overlay sz (audio_samples a) duration of
           Inl e \<Rightarrow> Inl e
         | Inr wave \<Rightarrow> Inr (layers @ [wave] @ karaoke_clips transcription sz duration))
      else Inr layers)"

text \<open>
  What the libraries under the renderer do on this job, where the renderer does not decide
  it: whether \<open>AudioFileClip\<close> raises; what building a clip raises, if anything (MoviePy
  computes the first frame of a \<open>VideoClip\<close> when it is built, Pillow draws the text image of
  an \<open>ImageClip\<close>, NumPy pastes it on the canvas); and what the last lines of the renderer
  raise, from \<open>CompositeVideoClip\<close> over \<open>with_audio\<close> and \<open>os.makedirs\<close> to \<open>write_videofile\<close>
  (MoviePy and ffmpeg), given the video, the audio and the output path.
\<close>

record library =
  lib_audio_clip :: "error option"
  lib_construct :: "clip \<Rightarrow> error option"
  lib_encode :: "video \<Rightarrow> audio_file \<Rightarrow> string \<Rightarrow> error option"

text \<open>The first exception among the clips built in this order.\<close>

fun first_error :: "(clip \<Rightarrow> error option) \<Rightarrow> clip list \<Rightarrow> error option" where
  "first_error f [] = None"
| "first_error f (c # cs) = (case f c of Some e \<Rightarrow> Some e | None \<Rightarrow> first_error f cs)"

text \<open>Building the clips that a step appended to the layers \<open>old\<close>.\<close>

definition built :: "library \<Rightarrow> clip list \<Rightarrow> clip list \<Rightarrow> error option" where
  "built lib old new = first_error (lib_construct lib) (drop (length old) new)"

text \<open>An exception ends the job; otherwise the rest runs.\<close>

definition guard :: "error option \<Rightarrow> error + 'a \<Rightarrow> error + 'a" where
  "guard r rest = (case r of Some e \<Rightarrow> Inl e | None \<Rightarrow> rest)"

text \<open>
  \<open>render_tiktok_reel\<close> up to the list of layers (all but its last six lines), with every
  exception in the order the source can raise it: the missing file, \<open>AudioFileClip\<close>,
  background and pulse, the title, a story that is \<open>null\<close> (\<open>"hook_moment" in story\<close> raises
  \<open>TypeError\<close>), the story layers, the hashtag strip, the waveform pack.
\<close>

definition assemble ::
  "library \<Rightarrow> concept \<Rightarrow> audio_file \<Rightarrow> size \<Rightarrow> int \<Rightarrow> bool \<Rightarrow> string option \<Rightarrow> error + video" where
  "assemble lib c a sz fps wow transcription =
     (if \<not> audio_exists a then Inl FileNotFoundError
      else
        guard (lib_audio_clip lib)
          (let duration = effective_duration (audio_duration a);
               bg = generate_dynamic_bg sz duration;
               beats = (case audio_beats a of Inl e \<Rightarrow> [] | Inr bs \<Rightarrow> bs);
               pulse = pulse_layer sz beats duration;
               timeline = segment_timeline duration;
               layers0 = [bg, pulse];
               layers1 = add_title sz duration c layers0
           in guard (built lib [] layers0)
                (guard (built lib layers0 layers1)
                   (case story_structure c of
                      None \<Rightarrow> Inl TypeError
                    | Some story \<Rightarrow>
                        (let layers2 = add_story sz timeline story ''hook_moment'' layers1;
                             layers3 = add_story sz timeline story ''development'' layers2;
                             layers4 = add_story sz timeline story ''climax'' layers3;
                             layers5 = add_story sz timeline story ''closing'' layers4;
                             layers6 = add_hashtags sz duration c layers5
                         in guard (built lib layers1 layers5)
                              (guard (built lib layers5 layers6)
                                 (case add_wow sz duration a wow transcription layers6 of
                                    Inl e \<Rightarrow> Inl e
                                  | Inr layers7 \<Rightarrow>
                                      guard (built lib layers6 layers7)
                                        (Inr \<lparr>v_layers = layers7, v_size = sz,
                                              v_duration = duration, v_fps = fps\<rparr>))))))))"


section \<open>Frames and blending\<close>

text \<open>A frame is a list of rows of RGB pixels with 8-bit channels.\<close>

type_synonym pixel = "nat \<times> nat \<times> nat"
type_synonym frame = "pixel list list"

text \<open>The frame of a \<open>ColorClip\<close>: every pixel has the clip's colour.\<close>

definition color_clip_frame :: "size \<Rightarrow> pixel \<Rightarrow> frame" where
  "color_clip_frame sz color = replicate (nat (snd sz)) (replicate (nat (fst sz)) color)"

definition frame_has_size :: "frame \<Rightarrow> size \<Rightarrow> bool" where
  "frame_has_size f sz =
     (int (length f) = snd sz \<and> list_all (\<lambda>row. int (length row) = fst sz) f)"

text \<open>
  Modelled from the spec: the alpha blend of the compositor, which is MoviePy's
  \<open>CompositeVideoClip\<close> and not in the repository. The spec gives it as
  \<open>result = canvas*(1-opacity) + layerPixels*opacity\<close>, on 8-bit channels.
\<close>

definition blend_channel :: "real \<Rightarrow> nat \<Rightarrow> nat \<Rightarrow> nat" where
  "blend_channel opacity canvas layer =
     nat \<lfloor>real canvas * (1 - opacity) + real layer * opacity\<rfloor>"

definition blend_pixel :: "real \<Rightarrow> pixel \<Rightarrow> pixel \<Rightarrow> pixel" where
  "blend_pixel opacity canvas layer =
     (case (canvas, layer) of
        ((r, g, b), (r', g', b')) \<Rightarrow>
          (blend_channel opacity r r', blend_channel opacity g g', blend_channel opacity b b'))"

definition blend :: "real \<Rightarrow> frame \<Rightarrow> frame \<Rightarrow> frame" where
  "blend opacity canvas layer = map2 (map2 (blend_pixel opacity)) canvas layer"

section \<open>Rounding: integers and doubles\<close>

subsection \<open>Rounding to integers\<close>







subsection \<open>The exponent search\<close>









subsection \<open>Rounding to doubles\<close>















section \<open>Timeline segmentation: properties\<close>

text \<open>
  Claim C2. For every duration \<open>D > 0\<close> the segmenter returns exactly the five segments
  intro, hook_moment, development, climax, closing, in this order; the first starts at 0,
  the last ends at \<open>D\<close>, every segment starts where the previous one ends, and the lengths
  are 0.10, 0.10, 0.50, 0.20 and 0.10 of \<open>D\<close>.
\<close>

theorem segment_timeline_five_contiguous:
  assumes "0 < D"
  shows "map fst (segment_timeline D) =
           [''intro'', ''hook_moment'', ''development'', ''climax'', ''closing'']
       \<and> fst (snd (segment_timeline D ! 0)) = 0
       \<and> snd (snd (segment_timeline D ! 4)) = D
       \<and> (\<forall>i < 4. fst (snd (segment_timeline D ! Suc i)) = snd (snd (segment_timeline D ! i)))
       \<and> map (\<lambda>(name, (s, e)). e - s) (segment_timeline D) =
           [0.10 * D, 0.10 * D, 0.50 * D, 0.20 * D, 0.10 * D]"
proof -
  have step: "\<And>i. i < (4::nat) \<Longrightarrow> i = 0 \<or> i = 1 \<or> i = 2 \<or> i = 3"
    by arith
  have names: "map fst (segment_timeline D) =
           [''intro'', ''hook_moment'', ''development'', ''climax'', ''closing'']"
    by (simp add: segment_timeline_def Let_def)
  have first: "fst (snd (segment_timeline D ! 0)) = 0"
    by (simp add: segment_timeline_def Let_def)
  have last: "snd (snd (segment_timeline D ! 4)) = D"
    by (simp add: segment_timeline_def Let_def)
  have contiguous:
    "\<forall>i < 4. fst (snd (segment_timeline D ! Suc i)) = snd (snd (segment_timeline D ! i))"
  proof (intro allI impI)
    fix i :: nat
    assume "i < 4"
    then consider "i = 0" | "i = 1" | "i = 2" | "i = 3"
      using step by blast
    then show "fst (snd (segment_timeline D ! Suc i)) = snd (snd (segment_timeline D ! i))"
      by cases (simp_all add: segment_timeline_def Let_def)
  qed
  have lengths: "map (\<lambda>(name, (s, e)). e - s) (segment_timeline D) =
           [0.10 * D, 0.10 * D, 0.50 * D, 0.20 * D, 0.10 * D]"
    by (simp add: segment_timeline_def Let_def)
  from names first last contiguous lengths show ?thesis
    by blast
qed

theorem segment_timeline_five_contiguous_witness:
  "(0::real) < 30
   \<and> segment_timeline 30 =
       [(''intro'', (0, 3)), (''hook_moment'', (3, 6)), (''development'', (6, 21)),
        (''climax'', (21, 27)), (''closing'', (27, 30))]
   \<and> snd (snd (segment_timeline 30 ! 4)) = 30
   \<and> fst (snd (segment_timeline 30 ! 1)) = snd (snd (segment_timeline 30 ! 0))
   \<and> fst (snd (segment_timeline 30 ! 4)) = snd (snd (segment_timeline 30 ! 3))"
  using segment_timeline_five_contiguous [of 30]
  by (simp add: segment_timeline_def Let_def)

section \<open>Beat pulse: properties\<close>

lemma pulse_loop_ge: "p \<le> pulse_loop t bts p"
proof (induction bts arbitrary: p)
  case Nil
  show ?case by simp
next
  case (Cons bt bts)
  let ?p' = "if \<bar>t - bt\<bar> < 0.10 then max p (1.0 - (\<bar>t - bt\<bar> / 0.10)) else p"
  have "p \<le> ?p'" by simp
  also have "?p' \<le> pulse_loop t bts ?p'" by (rule Cons.IH)
  finally show ?case by simp
qed

lemma pulse_loop_le_one: "p \<le> 1 \<Longrightarrow> pulse_loop t bts p \<le> 1"
proof (induction bts arbitrary: p)
  case Nil
  then show ?case by simp
next
  case (Cons bt bts)
  let ?p' = "if \<bar>t - bt\<bar> < 0.10 then max p (1.0 - (\<bar>t - bt\<bar> / 0.10)) else p"
  have "?p' \<le> 1" using Cons.prems by simp
  then have "pulse_loop t bts ?p' \<le> 1" by (rule Cons.IH)
  then show ?case by simp
qed

lemma pulse_loop_far:
  "\<forall>bt \<in> set bts. 0.10 \<le> \<bar>t - bt\<bar> \<Longrightarrow> pulse_loop t bts p = p"
  by (induction bts arbitrary: p) simp_all

lemma pulse_loop_one_iff:
  "p \<le> 1 \<Longrightarrow> pulse_loop t bts p = 1 \<longleftrightarrow> p = 1 \<or> t \<in> set bts"
proof (induction bts arbitrary: p)
  case Nil
  then show ?case by simp
next
  case (Cons bt bts)
  let ?p' = "if \<bar>t - bt\<bar> < 0.10 then max p (1.0 - (\<bar>t - bt\<bar> / 0.10)) else p"
  have le: "?p' \<le> 1" using Cons.prems by simp
  have one: "?p' = 1 \<longleftrightarrow> p = 1 \<or> t = bt"
    using Cons.prems by (auto simp: max_def)
  have "pulse_loop t (bt # bts) p = pulse_loop t bts ?p'" by simp
  also have "\<dots> = 1 \<longleftrightarrow> ?p' = 1 \<or> t \<in> set bts" by (rule Cons.IH [OF le])
  finally show ?case using one by auto
qed

lemma nearest_far:
  assumes "btimes \<noteq> []" and "0.10 < nearest_beat_distance btimes t"
  shows "\<forall>bt \<in> set btimes. 0.10 \<le> \<bar>t - bt\<bar>"
proof
  fix bt assume "bt \<in> set btimes"
  then have "nearest_beat_distance btimes t \<le> \<bar>t - bt\<bar>"
    unfolding nearest_beat_distance_def by (intro Min_le) auto
  with assms(2) show "0.10 \<le> \<bar>t - bt\<bar>" by simp
qed

text \<open>
  Claim C3. For a non-empty list of beat times and every time \<open>t\<close>, the intensity of the
  beat pulse is 0 whenever the nearest beat is farther than 0.10 seconds from \<open>t\<close> (and so
  are the alpha and the grey level derived from it), and the intensity attains its maximum,
  1, exactly when \<open>t\<close> is one of the beat times (the alpha then is at its maximum, 0.35).
\<close>

theorem pulse_zero_outside_window_max_at_beat:
  assumes "btimes \<noteq> []"
  shows "(0.10 < nearest_beat_distance btimes t \<longrightarrow>
            pulse_intensity btimes t = 0 \<and> pulse_alpha btimes t = 0 \<and> pulse_val btimes t = 0)
       \<and> pulse_intensity btimes t \<le> 1
       \<and> (pulse_intensity btimes t = 1 \<longleftrightarrow> t \<in> set btimes)
       \<and> pulse_alpha btimes t \<le> 0.35
       \<and> (pulse_alpha btimes t = 0.35 \<longleftrightarrow> t \<in> set btimes)"
proof -
  have ge: "0 \<le> pulse_intensity btimes t"
    unfolding pulse_intensity_def using pulse_loop_ge [of 0 t btimes] by simp
  have le: "pulse_intensity btimes t \<le> 1"
    unfolding pulse_intensity_def by (rule pulse_loop_le_one) simp
  have one: "pulse_intensity btimes t = 1 \<longleftrightarrow> t \<in> set btimes"
    unfolding pulse_intensity_def using pulse_loop_one_iff [of 0 t btimes] by simp
  have far: "pulse_intensity btimes t = 0 \<and> pulse_alpha btimes t = 0 \<and> pulse_val btimes t = 0"
    if "0.10 < nearest_beat_distance btimes t"
  proof -
    have "pulse_intensity btimes t = 0"
      unfolding pulse_intensity_def
      using pulse_loop_far [OF nearest_far [OF assms that], of 0] by simp
    then show ?thesis by (simp add: pulse_alpha_def pulse_val_def py_int_def)
  qed
  have sq_le: "(pulse_intensity btimes t)\<^sup>2 \<le> 1"
    using ge le by (simp add: power_le_one)
  have sq_one: "(pulse_intensity btimes t)\<^sup>2 = 1 \<longleftrightarrow> pulse_intensity btimes t = 1"
    using ge by (auto simp: power2_eq_1_iff)
  have alpha_le: "pulse_alpha btimes t \<le> 0.35"
    using sq_le by (simp add: pulse_alpha_def)
  have alpha_max: "pulse_alpha btimes t = 0.35 \<longleftrightarrow> t \<in> set btimes"
    using sq_one one by (simp add: pulse_alpha_def)
  from far le one alpha_le alpha_max show ?thesis by blast
qed

theorem pulse_zero_outside_window_max_at_beat_witness:
  "[1, 2 :: real] \<noteq> []
   \<and> 0.10 < nearest_beat_distance [1, 2] 1.5
   \<and> pulse_intensity [1, 2] 1.5 = 0
   \<and> pulse_intensity [1, 2] 2 = 1
   \<and> pulse_intensity [1, 2] 1.95 = 1/2
   \<and> pulse_alpha [1, 2] 2 = 0.35
   \<and> pulse_val [1, 2] 2 = 89"
  using pulse_zero_outside_window_max_at_beat [of "[1, 2]" "3/2"]
    pulse_zero_outside_window_max_at_beat [of "[1, 2]" 2]
  by (simp add: nearest_beat_distance_def pulse_intensity_def pulse_alpha_def pulse_val_def py_int_def)

section \<open>The render pipeline: structure and invalid durations\<close>


lemma add_text_at_extends: "\<exists>ys. add_text_at sz layers text s e fs = layers @ ys"
  by (simp add: add_text_at_def)

lemma add_title_extends: "\<exists>ys. add_title sz d c layers = layers @ ys"
  using add_text_at_extends by (simp add: add_title_def Let_def)

lemma add_story_extends: "\<exists>ys. add_story sz tml story key layers = layers @ ys"
  using add_text_at_extends by (simp add: add_story_def split: option.split)

lemma add_hashtags_extends: "\<exists>ys. add_hashtags sz d c layers = layers @ ys"
  by (simp add: add_hashtags_def Let_def)

lemma add_wow_extends:
  "add_wow sz d a wow tr layers = Inr layers' \<Longrightarrow> \<exists>ys. layers' = layers @ ys"
  by (auto simp: add_wow_def split: if_splits sum.splits)



lemma guard_Inr: "guard r rest = Inr v \<longleftrightarrow> r = None \<and> rest = Inr v"
  by (simp add: guard_def split: option.split)



text \<open>What a job that gets through the layers has built.\<close>

lemma assemble_layers:
  assumes "assemble lib c a sz fps wow tr = Inr v"
  shows "\<exists>story l1 l2 l3 l4 l5 l6.
           story_structure c = Some story
         \<and> l1 = add_title sz (effective_duration (audio_duration a)) c
                  [generate_dynamic_bg sz (effective_duration (audio_duration a)),
                   pulse_layer sz (case audio_beats a of Inl e \<Rightarrow> [] | Inr bs \<Rightarrow> bs)
                     (effective_duration (audio_duration a))]
         \<and> l2 = add_story sz (segment_timeline (effective_duration (audio_duration a))) story
                  ''hook_moment'' l1
         \<and> l3 = add_story sz (segment_timeline (effective_duration (audio_duration a))) story
                  ''development'' l2
         \<and> l4 = add_story sz (segment_timeline (effective_duration (audio_duration a))) story
                  ''climax'' l3
         \<and> l5 = add_story sz (segment_timeline (effective_duration (audio_duration a))) story
                  ''closing'' l4
         \<and> l6 = add_hashtags sz (effective_duration (audio_duration a)) c l5
         \<and> add_wow sz (effective_duration (audio_duration a)) a wow tr l6 = Inr (v_layers v)
         \<and> v = \<lparr>v_layers = v_layers v, v_size = sz,
                 v_duration = effective_duration (audio_duration a), v_fps = fps\<rparr>"
  using assms unfolding assemble_def Let_def
  by (auto simp: guard_Inr split: if_splits option.splits sum.splits)

lemma assemble_layers_prefix:
  assumes "assemble lib c a sz fps wow tr = Inr v"
  shows "v_duration v = effective_duration (audio_duration a)
       \<and> (\<exists>ys. v_layers v =
             [generate_dynamic_bg sz (v_duration v),
              pulse_layer sz (case audio_beats a of Inl e \<Rightarrow> [] | Inr bs \<Rightarrow> bs) (v_duration v)]
             @ ys)"
proof -
  define d where "d = effective_duration (audio_duration a)"
  define l0 where "l0 = [generate_dynamic_bg sz d,
    pulse_layer sz (case audio_beats a of Inl e \<Rightarrow> [] | Inr bs \<Rightarrow> bs) d]"
  from assemble_layers [OF assms] obtain story l1 l2 l3 l4 l5 l6 where
    l1: "l1 = add_title sz d c l0"
    and l2: "l2 = add_story sz (segment_timeline d) story ''hook_moment'' l1"
    and l3: "l3 = add_story sz (segment_timeline d) story ''development'' l2"
    and l4: "l4 = add_story sz (segment_timeline d) story ''climax'' l3"
    and l5: "l5 = add_story sz (segment_timeline d) story ''closing'' l4"
    and l6: "l6 = add_hashtags sz d c l5"
    and wow: "add_wow sz d a wow tr l6 = Inr (v_layers v)"
    and v: "v = \<lparr>v_layers = v_layers v, v_size = sz, v_duration = d, v_fps = fps\<rparr>"
    unfolding d_def l0_def by blast
  obtain y1 where "l1 = l0 @ y1" unfolding l1 using add_title_extends by blast
  moreover obtain y2 where "l2 = l1 @ y2" unfolding l2 using add_story_extends by blast
  moreover obtain y3 where "l3 = l2 @ y3" unfolding l3 using add_story_extends by blast
  moreover obtain y4 where "l4 = l3 @ y4" unfolding l4 using add_story_extends by blast
  moreover obtain y5 where "l5 = l4 @ y5" unfolding l5 using add_story_extends by blast
  moreover obtain y6 where "l6 = l5 @ y6" unfolding l6 using add_hashtags_extends by blast
  moreover obtain y7 where "v_layers v = l6 @ y7" using add_wow_extends [OF wow] by blast
  ultimately have "v_layers v = l0 @ (y1 @ y2 @ y3 @ y4 @ y5 @ y6 @ y7)" by simp
  moreover from v have "v_duration v = d" by (metis video.select_convs(3))
  ultimately show ?thesis by (auto simp: d_def l0_def)
qed






section \<open>Blending the pulse layer\<close>

lemma map2_left_identity:
  "length xs \<le> length ys \<Longrightarrow> (\<And>x y. (x, y) \<in> set (zip xs ys) \<Longrightarrow> f x y = x)
     \<Longrightarrow> map2 f xs ys = xs"
proof (induction xs arbitrary: ys)
  case Nil
  show ?case by simp
next
  case (Cons x xs)
  then obtain y ys' where ys: "ys = y # ys'"
    by (cases ys) auto
  from Cons.prems ys have "f x y = x" and "length xs \<le> length ys'"
    and "\<And>a b. (a, b) \<in> set (zip xs ys') \<Longrightarrow> f a b = a"
    by auto
  with Cons.IH [of ys'] ys show ?case by simp
qed

lemma blend_channel_transparent: "blend_channel 0 c l = c"
  by (simp add: blend_channel_def)

lemma blend_pixel_transparent: "blend_pixel 0 p q = p"
  by (cases p, cases q) (simp add: blend_pixel_def blend_channel_transparent)

lemma blend_transparent:
  assumes "frame_has_size bgf sz"
  shows "blend 0 bgf (replicate (nat (snd sz)) (replicate (nat (fst sz)) px)) = bgf"
proof -
  let ?row = "replicate (nat (fst sz)) px"
  have len: "length bgf \<le> length (replicate (nat (snd sz)) ?row)"
    using assms by (auto simp: frame_has_size_def)
  have rows: "map2 (blend_pixel 0) r r' = r"
    if "(r, r') \<in> set (zip bgf (replicate (nat (snd sz)) ?row))" for r r'
  proof -
    from that have "r \<in> set bgf" and "r' = ?row"
      by (auto dest: set_zip_leftD set_zip_rightD)
    with assms have "length r \<le> length r'"
      by (auto simp: frame_has_size_def list_all_iff)
    then show ?thesis
      by (rule map2_left_identity) (rule blend_pixel_transparent)
  qed
  show ?thesis
    unfolding blend_def by (rule map2_left_identity [OF len]) (rule rows)
qed

text \<open>
  Claim C4. When the list of beat times is empty (beat detection found nothing, or failed),
  the pulse layer of the video the renderer builds is a colour clip of opacity 0; blending
  it over any background frame of the canvas size gives that background back, at every time.
\<close>

theorem empty_beats_pulse_layer_is_transparent:
  assumes "assemble lib c a sz fps wow tr = Inr v"
    and "audio_beats a = Inr [] \<or> isl (audio_beats a)"
    and "frame_has_size bgf sz"
  shows "clip_source (v_layers v ! 1) = ColorClip sz (0, 0, 0)
       \<and> clip_opacity (v_layers v ! 1) = 0
       \<and> blend (clip_opacity (v_layers v ! 1)) bgf (color_clip_frame sz (0, 0, 0)) = bgf"
proof -
  from assms(2) have beats: "(case audio_beats a of Inl e \<Rightarrow> [] | Inr bs \<Rightarrow> bs) = []"
    by (auto simp: isl_def)
  from assemble_layers_prefix [OF assms(1)] beats
  have layer: "v_layers v ! 1 = pulse_layer sz [] (v_duration v)"
    by auto
  have src: "clip_source (v_layers v ! 1) = ColorClip sz (0, 0, 0)"
    and op: "clip_opacity (v_layers v ! 1) = 0"
    unfolding layer by (simp_all add: pulse_layer_def)
  have b1: "blend (clip_opacity (v_layers v ! 1)) bgf (color_clip_frame sz (0, 0, 0)) = bgf"
    unfolding op color_clip_frame_def by (rule blend_transparent [OF assms(3)])
  from src op b1 show ?thesis by blast
qed

theorem empty_beats_pulse_layer_is_transparent_witness:
  "assemble
       \<lparr>lib_audio_clip = None, lib_construct = (\<lambda>cl. None), lib_encode = (\<lambda>v a p. None)\<rparr>
       \<lparr>concept_title = None, story_structure = Some Map.empty, hashtags = None\<rparr>
       \<lparr>audio_exists = True, audio_duration = 4, audio_beats = Inr [], audio_samples = []\<rparr>
       (2, 1) 30 False None
     = Inr \<lparr>v_layers =
              [generate_dynamic_bg (2, 1) 4, pulse_layer (2, 1) [] 4,
               image_text_clip (Some ''ReelSense AI'') (2, 1) 0 2.8 80],
            v_size = (2, 1), v_duration = 4, v_fps = 30\<rparr>
   \<and> frame_has_size [[(10, 20, 30), (40, 50, 60)]] (2, 1)
   \<and> blend 0 [[(10, 20, 30), (40, 50, 60)]] (color_clip_frame (2, 1) (0, 0, 0))
       = [[(10, 20, 30), (40, 50, 60)]]"
proof -
  let ?lib = "\<lparr>lib_audio_clip = None, lib_construct = (\<lambda>cl. None),
               lib_encode = (\<lambda>v a p. None)\<rparr>"
  let ?c = "\<lparr>concept_title = None, story_structure = Some Map.empty, hashtags = None\<rparr>"
  let ?a = "\<lparr>audio_exists = True, audio_duration = 4, audio_beats = Inr [],
             audio_samples = []\<rparr>"
  let ?v = "\<lparr>v_layers =
              [generate_dynamic_bg (2, 1) 4, pulse_layer (2, 1) [] 4,
               image_text_clip (Some ''ReelSense AI'') (2, 1) 0 2.8 80],
            v_size = (2, 1), v_duration = 4, v_fps = 30\<rparr>"
  let ?f = "[[(10, 20, 30), (40, 50, 60)]] :: frame"
  have r: "assemble ?lib ?c ?a (2, 1) 30 False None = Inr ?v"
    by (simp add: assemble_def guard_def built_def effective_duration_def add_title_def
        add_text_at_def add_story_def add_hashtags_def add_wow_def Let_def)
  have b: "audio_beats ?a = Inr [] \<or> isl (audio_beats ?a)" by simp
  have f: "frame_has_size ?f (2, 1)" by (simp add: frame_has_size_def)
  from empty_beats_pulse_layer_is_transparent [OF r b f]
  have "blend (clip_opacity (v_layers ?v ! 1)) ?f (color_clip_frame (2, 1) (0, 0, 0)) = ?f"
    by blast
  then have "blend 0 ?f (color_clip_frame (2, 1) (0, 0, 0)) = ?f"
    by (simp add: pulse_layer_def)
  with r f show ?thesis by blast
qed

section \<open>Loudness envelope: properties\<close>

lemma frame_chunks_subset:
  "fr \<in> set (frame_chunks n y) \<Longrightarrow> set fr \<subseteq> set y"
proof (induction n y rule: frame_chunks.induct)
  case (1 n y)
  show ?case
  proof (cases "n = 0 \<or> length y < n")
    case True
    with "1.prems" show ?thesis by (simp add: frame_chunks.simps [of n y])
  next
    case False
    with "1.prems" have "fr = take n y \<or> fr \<in> set (frame_chunks n (drop n y))"
      by (simp add: frame_chunks.simps [of n y])
    then show ?thesis
    proof
      assume "fr = take n y"
      then show ?thesis by (auto dest: in_set_takeD)
    next
      assume "fr \<in> set (frame_chunks n (drop n y))"
      with "1.IH" False have "set fr \<subseteq> set (drop n y)" by blast
      then show ?thesis by (auto dest: in_set_dropD)
    qed
  qed
qed

lemma frame_chunks_nonempty:
  "0 < n \<Longrightarrow> n \<le> length y \<Longrightarrow> frame_chunks n y \<noteq> []"
  by (simp add: frame_chunks.simps [of n y])

lemma mean_silent: "\<forall>s \<in> set fr. s = 0 \<Longrightarrow> mean fr = 0"
proof -
  assume "\<forall>s \<in> set fr. s = 0"
  then have "sum_list fr = 0" by (induction fr) auto
  then show "mean fr = 0" by (simp add: mean_def)
qed

lemma normalised_in_unit_interval:
  fixes e m :: real
  assumes "0 \<le> e" and "e \<le> m"
  shows "0 \<le> e / (m + 1 / 10 ^ 8) \<and> e / (m + 1 / 10 ^ 8) \<le> 1"
proof -
  have pos: "0 < m + 1 / 10 ^ 8" using assms by (simp add: add_nonneg_pos)
  have "e \<le> m + 1 / 10 ^ 8" using assms(2) by simp
  with pos assms(1) show ?thesis by simp
qed

text \<open>
  Claim C5. Every value of the loudness envelope (the magnitude of each window's average,
  divided by the largest of them plus \<open>1e-8\<close>) lies in \<open>[0, 1]\<close>, and for a signal of zeros every
  value is 0. The envelope exists, with at least one value, whenever the window holds at
  least one sample and the signal at least one window; at the renderer's rate of 22050 the
  window is 441 samples.
\<close>

theorem loudness_envelope_in_unit_interval:
  "(\<forall>env. loudness_envelope y sr = Inr env \<longrightarrow>
        (\<forall>e \<in> set env. 0 \<le> e \<and> e \<le> 1)
      \<and> ((\<forall>s \<in> set y. s = 0) \<longrightarrow> (\<forall>e \<in> set env. e = 0)))
   \<and> (1 \<le> py_int (real_of_int sr * 0.02) \<and> py_int (real_of_int sr * 0.02) \<le> int (length y) \<longrightarrow>
        (\<exists>env. loudness_envelope y sr = Inr env \<and> env \<noteq> []))
   \<and> py_int (real_of_int 22050 * 0.02) = 441"
proof (intro conjI allI impI)
  fix env
  assume r: "loudness_envelope y sr = Inr env"
  define win where "win = py_int (real_of_int sr * 0.02)"
  define env0 where "env0 = map (\<lambda>fr. \<bar>mean fr\<bar>) (frame_chunks (nat win) y)"
  from r have env: "env = map (\<lambda>e. e / (Max (set env0) + 1 / 10 ^ 8)) env0"
    unfolding loudness_envelope_def Let_def win_def env0_def
    by (auto split: if_splits)
  show "\<forall>e \<in> set env. 0 \<le> e \<and> e \<le> 1"
  proof
    fix e assume "e \<in> set env"
    then obtain e0 where e0: "e0 \<in> set env0" and e: "e = e0 / (Max (set env0) + 1 / 10 ^ 8)"
      unfolding env by auto
    from e0 have "0 \<le> e0" unfolding env0_def by auto
    moreover from e0 have "e0 \<le> Max (set env0)" by simp
    ultimately show "0 \<le> e \<and> e \<le> 1"
      unfolding e by (rule normalised_in_unit_interval)
  qed
  show "\<forall>e \<in> set env. e = 0" if silent: "\<forall>s \<in> set y. s = 0"
  proof
    fix e assume "e \<in> set env"
    then obtain e0 where e0: "e0 \<in> set env0" and e: "e = e0 / (Max (set env0) + 1 / 10 ^ 8)"
      unfolding env by auto
    from e0 obtain fr where fr: "fr \<in> set (frame_chunks (nat win) y)" and "e0 = \<bar>mean fr\<bar>"
      unfolding env0_def by auto
    moreover from frame_chunks_subset [OF fr] silent have "mean fr = 0"
      by (intro mean_silent) auto
    ultimately have "e0 = 0" by simp
    then show "e = 0" unfolding e by simp
  qed
next
  assume w: "1 \<le> py_int (real_of_int sr * 0.02) \<and> py_int (real_of_int sr * 0.02) \<le> int (length y)"
  define win where "win = py_int (real_of_int sr * 0.02)"
  from w have "0 < nat win" and "nat win \<le> length y"
    unfolding win_def by auto
  then have "frame_chunks (nat win) y \<noteq> []"
    by (rule frame_chunks_nonempty)
  with w show "\<exists>env. loudness_envelope y sr = Inr env \<and> env \<noteq> []"
    unfolding loudness_envelope_def Let_def win_def by auto
next
  show "py_int (real_of_int 22050 * 0.02) = 441"
    by (simp add: py_int_def)
qed

theorem loudness_envelope_in_unit_interval_witness:
  "loudness_envelope [1, - 3, 0, 0, 2] 100 = Inr [1 / (1 + 1 / 10 ^ 8), 0]
   \<and> list_all (\<lambda>e. 0 \<le> e \<and> e \<le> 1) [1 / (1 + 1 / 10 ^ 8), 0 :: real]
   \<and> loudness_envelope [0, 0, 0, 0, 0] 100 = Inr [0, 0]
   \<and> 1 \<le> py_int (real_of_int 100 * 0.02)
   \<and> py_int (real_of_int 100 * 0.02) \<le> int (length [1, - 3, 0, 0, 2 :: real])"
proof -
  have w: "py_int (real_of_int 100 * 0.02) = 2"
    by (simp add: py_int_def)
  have w2: "py_int 2 = 2"
    by (simp add: py_int_def)
  have c1: "frame_chunks 2 [1, - 3, 0, 0, 2] = [[1, - 3], [0, 0]]"
    by (simp add: frame_chunks.simps)
  have c2: "frame_chunks 2 [0, 0, 0, 0, 0] = [[0, 0], [0, 0]]"
    by (simp add: frame_chunks.simps)
  have r1: "loudness_envelope [1, - 3, 0, 0, 2] 100 = Inr [1 / (1 + 1 / 10 ^ 8), 0]"
    by (simp add: loudness_envelope_def w2 c1 mean_def Let_def)
  have r2: "loudness_envelope [0, 0, 0, 0, 0] 100 = Inr [0, 0]"
    by (simp add: loudness_envelope_def w2 c2 mean_def Let_def)
  from loudness_envelope_in_unit_interval [of "[1, - 3, 0, 0, 2]" 100] r1
  have "\<forall>e \<in> set [1 / (1 + 1 / 10 ^ 8), 0 :: real]. 0 \<le> e \<and> e \<le> 1"
    by blast
  then have "list_all (\<lambda>e. 0 \<le> e \<and> e \<le> 1) [1 / (1 + 1 / 10 ^ 8), 0 :: real]"
    by (simp add: list_all_iff)
  with r1 r2 w show ?thesis by simp
qed

section \<open>Sanitised text and the typewriter\<close>



















section \<open>Text layers for empty text\<close>

lemma image_text_clip_duration:
  "clip_duration (image_text_clip text sz s e fs) = Some (max 0.01 (e - s))"
  by (simp add: image_text_clip_def Let_def)

lemma karaoke_clips_empty: "karaoke_clips None sz D = [] \<and> karaoke_clips (Some []) sz D = []"
  by (simp add: karaoke_clips_def safe_text_def)

text \<open>
  Claim C7, as amended. An empty or missing text never raises and never gives a layer of
  duration 0. The renderer's \<open>add_text_at\<close> and its story lines add no layer at all for such a
  text, and the caption generator returns no clips; for a non-empty text \<open>add_text_at\<close>
  appends exactly one layer, starting at \<open>start\<close> and lasting \<open>max(0.01, end - start)\<close>. The
  constructors themselves do not look at the text: \<open>_image_text_clip\<close> always builds a layer
  of duration \<open>max(0.01, end - start)\<close>, which is positive, and \<open>_typewriter_clip\<close> one of the
  duration it is given.
\<close>

theorem empty_text_adds_no_layer:
  "add_text_at sz layers None s e fs = layers
   \<and> add_text_at sz layers (Some []) s e fs = layers
   \<and> (story key \<in> {None, Some None, Some (Some [])} \<longrightarrow>
        add_story sz tml story key layers = layers)
   \<and> karaoke_clips None sz D = [] \<and> karaoke_clips (Some []) sz D = []
   \<and> (text \<noteq> [] \<longrightarrow>
        (\<exists>c. add_text_at sz layers (Some text) s e fs = layers @ [c]
           \<and> c = image_text_clip (Some text) sz s e fs
           \<and> clip_start c = s \<and> clip_duration c = Some (max 0.01 (e - s))
           \<and> clip_source c =
               ImageClip (render_text_image (Some text) (py_int (real_of_int (fst sz) * 0.9), 300)
                 fs (255, 255, 255))))
   \<and> (\<exists>d. clip_duration (image_text_clip txt sz s e fs) = Some d \<and> 0.01 \<le> d)
   \<and> clip_duration (typewriter_clip txt sz s dur fs) = Some dur"
proof -
  have empty: "add_text_at sz layers None s e fs = layers"
    "add_text_at sz layers (Some []) s e fs = layers"
    by (simp_all add: add_text_at_def)
  have story: "add_story sz tml story key layers = layers"
    if "story key \<in> {None, Some None, Some (Some [])}"
    using that by (auto simp: add_story_def add_text_at_def)
  have full: "\<exists>c. add_text_at sz layers (Some text) s e fs = layers @ [c]
           \<and> c = image_text_clip (Some text) sz s e fs
           \<and> clip_start c = s \<and> clip_duration c = Some (max 0.01 (e - s))
           \<and> clip_source c =
               ImageClip (render_text_image (Some text) (py_int (real_of_int (fst sz) * 0.9), 300)
                 fs (255, 255, 255))"
    if "text \<noteq> []"
    using that by (simp add: add_text_at_def image_text_clip_def Let_def)
  have pos: "\<exists>d. clip_duration (image_text_clip txt sz s e fs) = Some d \<and> 0.01 \<le> d"
    unfolding image_text_clip_duration using max.cobounded1 [of "0.01 :: real" "e - s"]
    by blast
  have tw: "clip_duration (typewriter_clip txt sz s dur fs) = Some dur"
    by (simp add: typewriter_clip_def)
  from empty story karaoke_clips_empty full pos tw show ?thesis
    by blast
qed

theorem empty_text_adds_no_layer_witness:
  "(Map.empty(''climax'' \<mapsto> Some []) :: string \<rightharpoonup> string option) ''climax''
       \<in> {None, Some None, Some (Some [])}
   \<and> add_story (1080, 1920) (segment_timeline 30) (Map.empty(''climax'' \<mapsto> Some [])) ''climax'' []
       = []
   \<and> ''Drop'' \<noteq> []
   \<and> add_text_at (1080, 1920) [] (Some ''Drop'') 3 6 68
       = [image_text_clip (Some ''Drop'') (1080, 1920) 3 6 68]
   \<and> clip_duration (image_text_clip (Some ''Drop'') (1080, 1920) 3 6 68) = Some 3"
proof -
  let ?story = "Map.empty(''climax'' \<mapsto> Some []) :: string \<rightharpoonup> string option"
  have k: "?story ''climax'' \<in> {None, Some None, Some (Some [])}" by simp
  have t: "''Drop'' \<noteq> []" by simp
  note inst = empty_text_adds_no_layer
    [of "(1080, 1920)" "[]" 3 6 68 ?story "''climax''" "segment_timeline 30" 30 "''Drop''" None 0]
  from inst k have a: "add_story (1080, 1920) (segment_timeline 30) ?story ''climax'' [] = []"
    by blast
  from inst t have b: "add_text_at (1080, 1920) [] (Some ''Drop'') 3 6 68
       = [image_text_clip (Some ''Drop'') (1080, 1920) 3 6 68]"
    by auto
  from inst t have c: "clip_duration (image_text_clip (Some ''Drop'') (1080, 1920) 3 6 68) = Some 3"
    by auto
  show ?thesis by (intro conjI) (fact k a t b c)+
qed

text \<open>
  The claim as stated fails: the constructor \<open>_image_text_clip\<close> gives empty text a layer of
  positive duration, and \<open>add_text_at\<close> gives it no layer, so neither yields duration 0.
\<close>

theorem empty_text_zero_duration_counterexample:
  "clip_duration (image_text_clip (Some []) (1080, 1920) 0 1 68) = Some 1
   \<and> clip_duration (image_text_clip (Some []) (1080, 1920) 0 1 68) \<noteq> Some 0
   \<and> clip_duration (typewriter_clip (Some []) (1080, 1920) 0 (14 / 5) 80) \<noteq> Some 0
   \<and> add_text_at (1080, 1920) [] (Some []) 0 1 68 = []"
  by (simp add: image_text_clip_def typewriter_clip_def add_text_at_def Let_def)

section \<open>Karaoke captions: properties\<close>













section \<open>Audio features: isolation of estimator failures\<close>

lemma py_round_zero: "py_round 0 nd = 0"
  by (simp add: py_round_def round_half_even_def)

lemma estimators_fail_to_zero:
  "estimate_pitch (Inl e) = 0" "estimate_tempo (Inl e) = Scalar 0" "estimate_spectral (Inl e) = 0"
  by (simp_all add: estimate_pitch_def estimate_tempo_def estimate_spectral_def)

text \<open>
  The extractor returns exactly when the sample rate is not 0, the RMS call succeeds and
  the tempo that leaves its \<open>try\<close> converts to a float. A failure of the pitch or of the
  spectral estimator never decides that, and puts 0.0 in its own field only.
\<close>

lemma analyze_returns_iff:
  "(\<exists>f. analyze_audio_features n sr est = Inr f) \<longleftrightarrow>
     sr \<noteq> 0 \<and> \<not> isl (rms_result est)
     \<and> \<not> isl (py_float (estimate_tempo (beat_track_result est)))"
  by (auto simp: analyze_audio_features_def Let_def isl_def split: sum.splits)

lemma pitch_and_spectral_failures_isolated:
  assumes "analyze_audio_features n sr est = Inr f"
  shows "(isl (piptrack_result est) \<longrightarrow> average_pitch_hz f = 0)
       \<and> (isl (spectral_centroid_result est) \<longrightarrow> spectral_centroid f = 0)
       \<and> (isl (beat_track_result est) \<longrightarrow> tempo_bpm f = 0)
       \<and> analyze_audio_features n sr (est\<lparr>piptrack_result := p\<rparr>)
           = Inr (f\<lparr>average_pitch_hz := py_round (estimate_pitch p) 1\<rparr>)
       \<and> analyze_audio_features n sr (est\<lparr>spectral_centroid_result := s\<rparr>)
           = Inr (f\<lparr>spectral_centroid := py_round (estimate_spectral s) 1\<rparr>)"
  using assms
  by (auto simp: analyze_audio_features_def Let_def isl_def estimators_fail_to_zero py_round_zero
      py_float_def split: if_splits sum.splits)

text \<open>
  Claim C9. The claim asks that a failing estimator costs its own field only and never the
  record. The code does so for the pitch and the spectral centroid, and for a tempo
  estimator that raises. But \<open>float(tempo)\<close> stands outside the \<open>try\<close> of the tempo block, in
  the returned dict: when the pitch estimator fails and the beat tracker succeeds with the
  one-element array of current librosa, the conversion raises \<open>TypeError\<close> and the extractor
  returns no record at all, where with a tempo that is a plain float it returns the record
  with pitch 0.0.
\<close>

theorem tempo_conversion_aborts_analysis:
  "analyze_audio_features 44100 22050
       \<lparr>rms_result = Inr [1 / 2], piptrack_result = Inl EstimatorError,
        beat_track_result = Inr (Array [120]), spectral_centroid_result = Inr [1000, 2000]\<rparr>
     = Inl TypeError
   \<and> analyze_audio_features 44100 22050
       \<lparr>rms_result = Inr [1 / 2], piptrack_result = Inl EstimatorError,
        beat_track_result = Inr (Scalar 120), spectral_centroid_result = Inr [1000, 2000]\<rparr>
     = Inr \<lparr>duration_seconds = 2, sample_rate = 22050, average_rms = 1 / 2,
            average_pitch_hz = 0, tempo_bpm = 120, spectral_centroid = 1500\<rparr>
   \<and> analyze_audio_features 44100 22050
       \<lparr>rms_result = Inr [1 / 2], piptrack_result = Inl EstimatorError,
        beat_track_result = Inl EstimatorError, spectral_centroid_result = Inr [1000, 2000]\<rparr>
     = Inr \<lparr>duration_seconds = 2, sample_rate = 22050, average_rms = 1 / 2,
            average_pitch_hz = 0, tempo_bpm = 0, spectral_centroid = 1500\<rparr>"
  by (simp add: analyze_audio_features_def estimate_pitch_def estimate_tempo_def
      estimate_spectral_def py_float_def mean_def py_round_def round_half_even_def Let_def)

section \<open>The hashtag strip\<close>

lemma takeWhile_eq_replicate: "\<exists>k. takeWhile (\<lambda>c. c = x) s = replicate k x"
proof (induction s)
  case Nil
  show ?case by simp
next
  case (Cons c s)
  then obtain k where k: "takeWhile (\<lambda>c. c = x) s = replicate k x" by blast
  show ?case
  proof (cases "c = x")
    case True
    with k have "takeWhile (\<lambda>c. c = x) (c # s) = replicate (Suc k) x" by simp
    then show ?thesis by blast
  next
    case False
    then have "takeWhile (\<lambda>c. c = x) (c # s) = replicate 0 x" by simp
    then show ?thesis by blast
  qed
qed

lemma hashtag_token_one_hash:
  "\<exists>k rest. h = replicate k CHR ''#'' @ rest \<and> hashtag_token h = CHR ''#'' # rest
     \<and> (rest = [] \<or> hd rest \<noteq> CHR ''#'')"
proof -
  obtain k where k: "takeWhile (\<lambda>c. c = CHR ''#'') h = replicate k CHR ''#''"
    using takeWhile_eq_replicate [of "CHR ''#''" h] by auto
  have "h = takeWhile (\<lambda>c. c = CHR ''#'') h @ lstrip_hash h"
    by (simp add: lstrip_hash_def)
  with k have split: "h = replicate k CHR ''#'' @ lstrip_hash h" by simp
  have "lstrip_hash h = [] \<or> hd (lstrip_hash h) \<noteq> CHR ''#''"
    unfolding lstrip_hash_def using hd_dropWhile [of "\<lambda>c. c = CHR ''#''" h] by blast
  with split show ?thesis
    unfolding hashtag_token_def by blast
qed

lemma hashtag_text_first_five: "hashtag_text tags = hashtag_text (take 5 tags)"
  by (simp add: hashtag_text_def)

text \<open>
  Claim C10. For a concept with a non-empty list of hashtags the renderer appends exactly one
  layer for them: an image of the text made of the first five hashtags, each written as one
  \<open>#\<close> followed by the hashtag without its leading \<open>#\<close> characters, joined by two spaces; the
  layer starts at 0 and lasts the whole track. With the waveform pack off it is the last
  layer of the video the renderer builds. For an empty or absent list no layer is appended.
\<close>

theorem hashtag_strip_layer:
  "((hashtags c = None \<or> hashtags c = Some []) \<longrightarrow> add_hashtags sz D c layers = layers)
   \<and> (hashtags c = Some tags \<and> tags \<noteq> [] \<longrightarrow>
        (\<exists>l. add_hashtags sz D c layers = layers @ [l]
           \<and> clip_start l = 0 \<and> clip_duration l = Some D
           \<and> clip_source l =
               ImageClip (render_text_image
                 (Some (join ''  '' (map hashtag_token (take 5 tags))))
                 (py_int (real_of_int (fst sz) * 0.9), 160) 44 (255, 255, 255))
           \<and> (\<forall>v. assemble lib c a sz fps False tr = Inr v \<longrightarrow>
                  last (v_layers v) = l\<lparr>clip_duration := Some (v_duration v)\<rparr>
                \<and> v_duration v = effective_duration (audio_duration a))))
   \<and> hashtag_text tags = hashtag_text (take 5 tags)
   \<and> length (map hashtag_token (take 5 tags)) = min 5 (length tags)
   \<and> (\<exists>k rest. h = replicate k CHR ''#'' @ rest \<and> hashtag_token h = CHR ''#'' # rest
          \<and> (rest = [] \<or> hd rest \<noteq> CHR ''#''))"
proof -
  have none: "add_hashtags sz D c layers = layers"
    if "hashtags c = None \<or> hashtags c = Some []"
    using that by (auto simp: add_hashtags_def)
  define l where "l = \<lparr>clip_source = ImageClip (render_text_image
                 (Some (join ''  '' (map hashtag_token (take 5 tags))))
                 (py_int (real_of_int (fst sz) * 0.9), 160) 44 (255, 255, 255)),
               clip_start = 0, clip_duration = Some D, clip_opacity = 1,
               clip_position = CenterAt (py_int (real_of_int (snd sz) * 0.92))\<rparr>"
  have some: "add_hashtags sz D' c layers' = layers' @ [l\<lparr>clip_duration := Some D'\<rparr>]"
    if "hashtags c = Some tags \<and> tags \<noteq> []" for D' layers'
    using that by (simp add: add_hashtags_def hashtag_text_def l_def Let_def)
  have pipeline: "last (v_layers v) = l\<lparr>clip_duration := Some (v_duration v)\<rparr>
                \<and> v_duration v = effective_duration (audio_duration a)"
    if h: "hashtags c = Some tags \<and> tags \<noteq> []"
      and r: "assemble lib c a sz fps False tr = Inr v" for v
  proof -
    from assemble_layers [OF r] obtain l5 where
      "add_wow sz (effective_duration (audio_duration a)) a False tr
         (add_hashtags sz (effective_duration (audio_duration a)) c l5) = Inr (v_layers v)"
      and v: "v = \<lparr>v_layers = v_layers v, v_size = sz,
                 v_duration = effective_duration (audio_duration a), v_fps = fps\<rparr>"
      by blast
    then have "v_layers v = l5 @ [l\<lparr>clip_duration := Some (effective_duration (audio_duration a))\<rparr>]"
      by (simp add: add_wow_def some [OF h])
    moreover from v have "v_duration v = effective_duration (audio_duration a)"
      by (metis video.select_convs(3))
    ultimately show ?thesis by simp
  qed
  have fields: "clip_start l = 0" "clip_duration l = Some D"
    "clip_source l = ImageClip (render_text_image
                 (Some (join ''  '' (map hashtag_token (take 5 tags))))
                 (py_int (real_of_int (fst sz) * 0.9), 160) 44 (255, 255, 255))"
    by (simp_all add: l_def)
  have same: "l\<lparr>clip_duration := Some D\<rparr> = l"
    by (simp add: l_def)
  have added: "\<exists>l. add_hashtags sz D c layers = layers @ [l]
           \<and> clip_start l = 0 \<and> clip_duration l = Some D
           \<and> clip_source l =
               ImageClip (render_text_image
                 (Some (join ''  '' (map hashtag_token (take 5 tags))))
                 (py_int (real_of_int (fst sz) * 0.9), 160) 44 (255, 255, 255))
           \<and> (\<forall>v. assemble lib c a sz fps False tr = Inr v \<longrightarrow>
                  last (v_layers v) = l\<lparr>clip_duration := Some (v_duration v)\<rparr>
                \<and> v_duration v = effective_duration (audio_duration a))"
    if h: "hashtags c = Some tags \<and> tags \<noteq> []"
    using some [OF h, of D layers] same fields pipeline [OF h] by auto
  have len: "length (map hashtag_token (take 5 tags)) = min 5 (length tags)"
    by (simp add: min.commute)
  from none added hashtag_text_first_five len hashtag_token_one_hash show ?thesis
    by blast
qed

theorem hashtag_strip_layer_witness:
  "hashtags \<lparr>concept_title = Some ''Test'', story_structure = Some Map.empty,
       hashtags = Some [''##a'', ''b'', ''c'', ''d'', ''e'', ''f'']\<rparr>
     = Some [''##a'', ''b'', ''c'', ''d'', ''e'', ''f'']
   \<and> [''##a'', ''b'', ''c'', ''d'', ''e'', ''f''] \<noteq> []
   \<and> hashtag_text [''##a'', ''b'', ''c'', ''d'', ''e'', ''f''] = ''#a  #b  #c  #d  #e''
   \<and> length (add_hashtags (1080, 1920) 12
         \<lparr>concept_title = Some ''Test'', story_structure = Some Map.empty,
          hashtags = Some [''##a'', ''b'', ''c'', ''d'', ''e'', ''f'']\<rparr> []) = 1
   \<and> map clip_start (add_hashtags (1080, 1920) 12
         \<lparr>concept_title = Some ''Test'', story_structure = Some Map.empty,
          hashtags = Some [''##a'', ''b'', ''c'', ''d'', ''e'', ''f'']\<rparr> []) = [0]
   \<and> map clip_duration (add_hashtags (1080, 1920) 12
         \<lparr>concept_title = Some ''Test'', story_structure = Some Map.empty,
          hashtags = Some [''##a'', ''b'', ''c'', ''d'', ''e'', ''f'']\<rparr> []) = [Some 12]
   \<and> hashtags \<lparr>concept_title = Some ''Test'', story_structure = Some Map.empty, hashtags = None\<rparr>
       = None
   \<and> add_hashtags (1080, 1920) 12
         \<lparr>concept_title = Some ''Test'', story_structure = Some Map.empty, hashtags = None\<rparr> [] = []"
proof -
  let ?tags = "[''##a'', ''b'', ''c'', ''d'', ''e'', ''f'']"
  let ?c = "\<lparr>concept_title = Some ''Test'', story_structure = Some Map.empty,
          hashtags = Some ?tags\<rparr>"
  let ?cnone = "\<lparr>concept_title = Some ''Test'', story_structure = Some Map.empty,
          hashtags = None :: string list option\<rparr>"
  have h: "hashtags ?c = Some ?tags"
    by simp
  have ne: "?tags \<noteq> []"
    by simp
  have h0: "hashtags ?cnone = None"
    by simp
  have t: "hashtag_text ?tags = ''#a  #b  #c  #d  #e''"
    by (simp add: hashtag_text_def hashtag_token_def lstrip_hash_def)
  from hashtag_strip_layer [of ?c "(1080, 1920)" 12 "[]" ?tags] h ne
  obtain l where l: "add_hashtags (1080, 1920) 12 ?c [] = [] @ [l]"
    "clip_start l = 0" "clip_duration l = Some 12"
    by blast
  from hashtag_strip_layer [of ?cnone "(1080, 1920)" 12 "[]"] h0
  have e: "add_hashtags (1080, 1920) 12 ?cnone [] = []"
    by blast
  from l have a: "length (add_hashtags (1080, 1920) 12 ?c []) = 1"
    "map clip_start (add_hashtags (1080, 1920) 12 ?c []) = [0]"
    "map clip_duration (add_hashtags (1080, 1920) 12 ?c []) = [Some 12]"
    by simp_all
  show ?thesis by (intro conjI) (fact h ne t a h0 e)+
qed

end
